theory Spec2Isabelle
  imports Complex_Main "HOL-Library.Log_Nat"
begin

section \<open>Python values and exceptions\<close>

text \<open>
  A Python float is an IEEE double. A finite double is represented by its exact value, a
  rational number; the two infinities and the not-a-number value are constructors of
  their own. Negative zero is identified with zero (they compare equal and convert to the
  same integer).
\<close>

datatype pyfloat = Finite rat | PosInf | NegInf | NaN

text \<open>
  What \<^verbatim>\<open>json.loads\<close> and \<^verbatim>\<open>response.json()\<close> return. A dict is an association list read with
  \<open>map_of\<close>; Python's \<^verbatim>\<open>None\<close> is \<open>JNull\<close>.
\<close>

datatype json =
    JNull
  | JBool bool
  | JInt int
  | JFloat pyfloat
  | JStr string
  | JArr "json list"
  | JObj "(string \<times> json) list"

text \<open>The messages of the \<^verbatim>\<open>ValueError\<close>s that are raised, by the code and by the builtins.\<close>

datatype value_error =
    Invalid_JSON_format
  | Missing_required_field string
  | Field_cannot_be_null string
  | Invalid_amount json
  | status_is_disabled
  | could_not_convert

datatype pyerr =
    ValueError value_error
  | TypeError
  | KeyError string
  | AttributeError
  | OverflowError
  | AssertionError
  | HTTPError
  | JSONDecodeError
  | RequestException

section \<open>The builtins \<^verbatim>\<open>float\<close>, \<^verbatim>\<open>int\<close> and \<^verbatim>\<open>str\<close>\<close>

text \<open>
  Strings are ASCII text. \<^verbatim>\<open>float\<close> and \<^verbatim>\<open>int\<close> strip surrounding whitespace, take an optional
  sign and read groups of digits that single underscores may separate.
\<close>

definition is_space :: "char \<Rightarrow> bool" where
  "is_space c = (let n = (of_char c :: nat) in (9 \<le> n \<and> n \<le> 13) \<or> n = 32)"

definition strip :: "string \<Rightarrow> string" where
  "strip s = rev (dropWhile is_space (rev (dropWhile is_space s)))"

definition is_digit :: "char \<Rightarrow> bool" where
  "is_digit c = (let n = (of_char c :: nat) in 48 \<le> n \<and> n \<le> 57)"

definition digit_val :: "char \<Rightarrow> int" where
  "digit_val c = of_char c - 48"

definition cons_digit :: "char \<Rightarrow> int list \<times> string \<Rightarrow> int list \<times> string" where
  "cons_digit c p = (digit_val c # fst p, snd p)"

text \<open>\<^verbatim>\<open>digitpart ::= digit (["_"] digit)*\<close>: the digits read, and the text left over.\<close>

fun digitpart :: "string \<Rightarrow> int list \<times> string" where
  "digitpart (c # u # c2 # cs) =
     (if is_digit c then
        (if u = CHR ''_'' \<and> is_digit c2 then cons_digit c (digitpart (c2 # cs))
         else cons_digit c (digitpart (u # c2 # cs)))
      else ([], c # u # c2 # cs))"
| "digitpart (c # cs) =
     (if is_digit c then cons_digit c (digitpart cs) else ([], c # cs))"
| "digitpart [] = ([], [])"

definition digits_value :: "int list \<Rightarrow> int" where
  "digits_value ds = foldl (\<lambda>a d. 10 * a + d) 0 ds"

text \<open>An optional sign: whether it is a minus, and the rest.\<close>

fun read_sign :: "string \<Rightarrow> bool \<times> string" where
  "read_sign (c # cs) =
     (if c = CHR ''-'' then (True, cs) else if c = CHR ''+'' then (False, cs) else (False, c # cs))"
| "read_sign [] = (False, [])"

text \<open>
  \<^verbatim>\<open>int(s)\<close> for a string, base ten. CPython refuses a text of more than 4300 digits (the
  default of \<^verbatim>\<open>sys.set_int_max_str_digits\<close>) with a \<^verbatim>\<open>ValueError\<close>.
\<close>

definition max_str_digits :: nat where
  "max_str_digits = 4300"

definition int_of_string :: "string \<Rightarrow> pyerr + int" where
  "int_of_string s =
     (let (neg, r) = read_sign (strip s); (ds, rest) = digitpart r
      in if ds \<noteq> [] \<and> rest = [] \<and> length ds \<le> max_str_digits
         then Inr (if neg then - digits_value ds else digits_value ds)
         else Inl (ValueError could_not_convert))"

definition pow2 :: "int \<Rightarrow> rat" where
  "pow2 k = (if 0 \<le> k then 2 ^ nat k else 1 / 2 ^ nat (- k))"

definition pow10 :: "int \<Rightarrow> rat" where
  "pow10 k = (if 0 \<le> k then 10 ^ nat k else 1 / 10 ^ nat (- k))"

text \<open>The exponent \<open>e\<close> with \<open>2 ^ e \<le> a < 2 ^ (e + 1)\<close>, for a positive rational.\<close>

definition binary_exponent :: "rat \<Rightarrow> int" where
  "binary_exponent a =
     (let (n, d) = quotient_of a;
          c = bitlen n - bitlen d
      in if pow2 c \<le> a then c else c - 1)"

definition round_half_even :: "rat \<Rightarrow> int" where
  "round_half_even x =
     (let f = \<lfloor>x\<rfloor>; r = x - of_int f
      in if r < 1 / 2 then f else if 1 / 2 < r then f + 1 else if even f then f else f + 1)"

text \<open>
  The double nearest to a rational, ties to the even significand: 53 bits of significand,
  the least exponent of a unit in the last place is -1074, and a result of \<open>2 ^ 1024\<close> or
  more is an infinity.
\<close>

definition round_double :: "rat \<Rightarrow> pyfloat" where
  "round_double q =
     (if q = 0 then Finite 0
      else
        let a = \<bar>q\<bar>;
            k = max (binary_exponent a - 52) (- 1074);
            v = of_int (round_half_even (a / pow2 k)) * pow2 k
        in if 2 ^ 1024 \<le> v then (if q < 0 then NegInf else PosInf)
           else Finite (if q < 0 then - v else v))"

definition lower :: "char \<Rightarrow> char" where
  "lower c = (let n = (of_char c :: nat) in if 65 \<le> n \<and> n \<le> 90 then char_of (n + 32) else c)"

text \<open>
  \<^verbatim>\<open>floatnumber ::= ([digitpart] "." digitpart | digitpart ["."]) [("e" | "E") [sign] digitpart]\<close>:
  the rational that the text denotes, when the whole text is a number.
\<close>

definition read_exponent :: "string \<Rightarrow> (int \<times> string) option" where
  "read_exponent r =
     (case r of
        [] \<Rightarrow> Some (0, [])
      | c # cs \<Rightarrow>
          if c = CHR ''e'' \<or> c = CHR ''E'' then
            (let (neg, r1) = read_sign cs; (ds, rest) = digitpart r1
             in if ds = [] then None
                else Some (if neg then - digits_value ds else digits_value ds, rest))
          else Some (0, c # cs))"

definition floatnumber :: "string \<Rightarrow> rat option" where
  "floatnumber s =
     (let (ip, r1) = digitpart s;
          (fp, r2) = (case r1 of c # cs \<Rightarrow> if c = CHR ''.'' then digitpart cs else ([], r1)
                      | [] \<Rightarrow> ([], r1))
      in if ip = [] \<and> fp = [] then None
         else (case read_exponent r2 of
                 None \<Rightarrow> None
               | Some (e, rest) \<Rightarrow>
                   if rest \<noteq> [] then None
                   else Some (of_int (digits_value (ip @ fp)) * pow10 (e - int (length fp)))))"

text \<open>\<^verbatim>\<open>float(s)\<close> for a string.\<close>

definition float_of_string :: "string \<Rightarrow> pyerr + pyfloat" where
  "float_of_string s =
     (let (neg, r) = read_sign (strip s); w = map lower r
      in if w = ''inf'' \<or> w = ''infinity'' then Inr (if neg then NegInf else PosInf)
         else if w = ''nan'' then Inr NaN
         else (case floatnumber r of
                 None \<Rightarrow> Inl (ValueError could_not_convert)
               | Some q \<Rightarrow> Inr (round_double (if neg then - q else q))))"

text \<open>\<^verbatim>\<open>float(x)\<close> for a value that \<^verbatim>\<open>json.loads\<close> returned.\<close>

fun py_float :: "json \<Rightarrow> pyerr + pyfloat" where
  "py_float (JStr s) = float_of_string s"
| "py_float (JFloat f) = Inr f"
| "py_float (JInt n) =
     (case round_double (of_int n) of Finite q \<Rightarrow> Inr (Finite q) | _ \<Rightarrow> Inl OverflowError)"
| "py_float (JBool b) = Inr (Finite (if b then 1 else 0))"
| "py_float JNull = Inl TypeError"
| "py_float (JArr xs) = Inl TypeError"
| "py_float (JObj kvs) = Inl TypeError"

text \<open>\<^verbatim>\<open>int(f)\<close> for a float: the fraction is dropped, towards zero.\<close>

fun int_of_float :: "pyfloat \<Rightarrow> pyerr + int" where
  "int_of_float (Finite q) = Inr (if 0 \<le> q then \<lfloor>q\<rfloor> else \<lceil>q\<rceil>)"
| "int_of_float PosInf = Inl OverflowError"
| "int_of_float NegInf = Inl OverflowError"
| "int_of_float NaN = Inl (ValueError could_not_convert)"

text \<open>\<^verbatim>\<open>int(x)\<close> for a value that \<^verbatim>\<open>json.loads\<close> returned.\<close>

fun py_int :: "json \<Rightarrow> pyerr + int" where
  "py_int (JStr s) = int_of_string s"
| "py_int (JInt n) = Inr n"
| "py_int (JBool b) = Inr (if b then 1 else 0)"
| "py_int (JFloat f) = int_of_float f"
| "py_int JNull = Inl TypeError"
| "py_int (JArr xs) = Inl TypeError"
| "py_int (JObj kvs) = Inl TypeError"

text \<open>\<^verbatim>\<open>str(n)\<close> for an int.\<close>

function str_digits :: "int \<Rightarrow> string" where
  "str_digits n =
     (if n < 10 then [char_of (48 + n)] else str_digits (n div 10) @ [char_of (48 + n mod 10)])"
  by pat_completeness auto
termination
  by (relation "measure nat") auto

definition str_int :: "int \<Rightarrow> string" where
  "str_int n = (if n < 0 then CHR ''-'' # str_digits (- n) else str_digits n)"

section \<open>Module constants\<close>

record response =
  statusCode :: int
  body :: string

text \<open>
  The bodies are the texts that \<^verbatim>\<open>json.dumps\<close> gives for the message strings: quoted, with
  every character outside ASCII written as a \<^verbatim>\<open>\u\<close> escape.
\<close>

definition ERROR_CODE_DB :: response where
  "ERROR_CODE_DB =
     \<lparr>statusCode = 500, body = ''\"error: There is duplicate data in tbl_billinguser\"''\<rparr>"

definition ERROR_CODE_REQUEST :: response where
  "ERROR_CODE_REQUEST =
     \<lparr>statusCode = 500,
      body = ''\"error: APIRequest'' @ CHR 0x5C # ''u306b'' @ CHR 0x5C # ''u5931'' @
             CHR 0x5C # ''u6557'' @ CHR 0x5C # ''u3057'' @ CHR 0x5C # ''u307e'' @
             CHR 0x5C # ''u3057'' @ CHR 0x5C # ''u305f\"''\<rparr>"

definition ERROR_CODE_SOMETHING :: response where
  "ERROR_CODE_SOMETHING = \<lparr>statusCode = 500, body = ''\"error: There is something wrong\"''\<rparr>"

definition SUCCESS_FLAG :: int where "SUCCESS_FLAG = 1"
definition FAULT_FLAG :: int where "FAULT_FLAG = 2"
definition BILLING_FLAG_PENDING :: string where "BILLING_FLAG_PENDING = ''1''"
definition BILLING_FLAG_FINISHED :: string where "BILLING_FLAG_FINISHED = ''2''"
definition SETTLEMENT_SUCCESS :: string where "SETTLEMENT_SUCCESS = ''1''"
definition SETTLEMENT_FAILURE :: string where "SETTLEMENT_FAILURE = ''2''"

section \<open>Operations of Python on the values of a message\<close>

fun starts_with :: "string \<Rightarrow> string \<Rightarrow> bool" where
  "starts_with [] s = True"
| "starts_with (p # ps) [] = False"
| "starts_with (p # ps) (c # cs) = (p = c \<and> starts_with ps cs)"

fun contains_str :: "string \<Rightarrow> string \<Rightarrow> bool" where
  "contains_str sub [] = (sub = [])"
| "contains_str sub (c # cs) = (starts_with sub (c # cs) \<or> contains_str sub cs)"

text \<open>
  \<^verbatim>\<open>field in message_data\<close>: a key of a dict, a substring of a string, an element of a list;
  the other values are not containers.
\<close>

fun py_contains :: "string \<Rightarrow> json \<Rightarrow> pyerr + bool" where
  "py_contains k (JObj kvs) = Inr (k \<in> set (map fst kvs))"
| "py_contains k (JStr s) = Inr (contains_str k s)"
| "py_contains k (JArr xs) = Inr (JStr k \<in> set xs)"
| "py_contains k JNull = Inl TypeError"
| "py_contains k (JBool b) = Inl TypeError"
| "py_contains k (JInt n) = Inl TypeError"
| "py_contains k (JFloat f) = Inl TypeError"

text \<open>\<^verbatim>\<open>d[k]\<close> with a string \<open>k\<close>: only a dict can be indexed by a string.\<close>

fun py_getitem :: "json \<Rightarrow> string \<Rightarrow> pyerr + json" where
  "py_getitem (JObj kvs) k = (case map_of kvs k of None \<Rightarrow> Inl (KeyError k) | Some v \<Rightarrow> Inr v)"
| "py_getitem JNull k = Inl TypeError"
| "py_getitem (JBool b) k = Inl TypeError"
| "py_getitem (JInt n) k = Inl TypeError"
| "py_getitem (JFloat f) k = Inl TypeError"
| "py_getitem (JStr s) k = Inl TypeError"
| "py_getitem (JArr xs) k = Inl TypeError"

text \<open>\<^verbatim>\<open>v == n\<close> for an int \<open>n\<close>: numbers compare by value, and \<^verbatim>\<open>True\<close> is 1.\<close>

fun py_eq_int :: "json \<Rightarrow> int \<Rightarrow> bool" where
  "py_eq_int (JInt m) n = (m = n)"
| "py_eq_int (JBool b) n = ((if b then 1 else 0) = n)"
| "py_eq_int (JFloat (Finite q)) n = (q = of_int n)"
| "py_eq_int (JFloat PosInf) n = False"
| "py_eq_int (JFloat NegInf) n = False"
| "py_eq_int (JFloat NaN) n = False"
| "py_eq_int JNull n = False"
| "py_eq_int (JStr s) n = False"
| "py_eq_int (JArr xs) n = False"
| "py_eq_int (JObj kvs) n = False"

section \<open>Message Parser\<close>

text \<open>
  The body of a queue record is text. It is represented by what \<^verbatim>\<open>json.loads\<close> does with it:
  the text does not decode, or it decodes to a value. A record with no \<^verbatim>\<open>body\<close> key has the
  body \<^verbatim>\<open>""\<close>, which does not decode.
\<close>

datatype payload = Undecodable | Decodes json

record sqs_record =
  record_body :: "payload option"

definition required_fields :: "string list" where
  "required_fields = [''billing_id'', ''merchant_code'', ''user_code'', ''direct_debit_id'', ''amount'']"

text \<open>The loop over the required fields: the first field that is absent or null raises.\<close>

fun check_fields :: "json \<Rightarrow> string list \<Rightarrow> pyerr + unit" where
  "check_fields message_data [] = Inr ()"
| "check_fields message_data (field # rest) =
     (case py_contains field message_data of
        Inl e \<Rightarrow> Inl e
      | Inr False \<Rightarrow> Inl (ValueError (Missing_required_field field))
      | Inr True \<Rightarrow>
          (case py_getitem message_data field of
             Inl e \<Rightarrow> Inl e
           | Inr v \<Rightarrow>
               if v = JNull then Inl (ValueError (Field_cannot_be_null field))
               else check_fields message_data rest))"

text \<open>
  \<^verbatim>\<open>str(int(float(raw_amount)))\<close>, where a \<^verbatim>\<open>ValueError\<close> of the conversion becomes
  \<^verbatim>\<open>Invalid amount\<close>; any other exception passes through.
\<close>

definition convert_amount :: "json \<Rightarrow> pyerr + string" where
  "convert_amount raw_amount =
     (case (case py_float raw_amount of Inl e \<Rightarrow> Inl e | Inr f \<Rightarrow> int_of_float f) of
        Inl (ValueError m) \<Rightarrow> Inl (ValueError (Invalid_amount raw_amount))
      | Inl e \<Rightarrow> Inl e
      | Inr n \<Rightarrow> Inr (str_int n))"

text \<open>
  The result is the tuple \<^verbatim>\<open>(message_data, billing_id, merchant_code, user_code,
  direct_debit_id, amount)\<close>.
\<close>

type_synonym parsed = "json \<times> json \<times> json \<times> json \<times> json \<times> string"

definition parse_message :: "sqs_record \<Rightarrow> pyerr + parsed" where
  "parse_message record =
     (case (case record_body record of None \<Rightarrow> Undecodable | Some b \<Rightarrow> b) of
        Undecodable \<Rightarrow> Inl (ValueError Invalid_JSON_format)
      | Decodes message_data \<Rightarrow>
          (case check_fields message_data required_fields of
             Inl e \<Rightarrow> Inl e
           | Inr u \<Rightarrow>
               (case py_getitem message_data ''amount'' of
                  Inl e \<Rightarrow> Inl e
                | Inr raw_amount \<Rightarrow>
                    (case convert_amount raw_amount of
                       Inl e \<Rightarrow> Inl e
                     | Inr amount \<Rightarrow>
                         (case (py_getitem message_data ''billing_id'',
                                py_getitem message_data ''merchant_code'',
                                py_getitem message_data ''user_code'',
                                py_getitem message_data ''direct_debit_id'') of
                            (Inr billing_id, Inr merchant_code, Inr user_code, Inr direct_debit_id) \<Rightarrow>
                              Inr (message_data, billing_id, merchant_code, user_code,
                                   direct_debit_id, amount)
                          | (Inl e, _, _, _) \<Rightarrow> Inl e
                          | (_, Inl e, _, _) \<Rightarrow> Inl e
                          | (_, _, Inl e, _) \<Rightarrow> Inl e
                          | (_, _, _, Inl e) \<Rightarrow> Inl e)))))"

subsection \<open>The number that a decimal text denotes\<close>




section \<open>Debit Client\<close>

record debit_request =
  customer_id :: int
  amount :: int
  tax :: int
  ship_fee :: int
  transfer_type :: int
  status :: int

definition get_request_body :: "json \<Rightarrow> string \<Rightarrow> pyerr + debit_request" where
  "get_request_body direct_debit_id total_amount =
     (case py_int direct_debit_id of
        Inl e \<Rightarrow> Inl e
      | Inr c \<Rightarrow>
          (case py_int (JStr total_amount) of
             Inl e \<Rightarrow> Inl e
           | Inr a \<Rightarrow>
               Inr \<lparr>customer_id = c, amount = a, tax = 0, ship_fee = 0,
                    transfer_type = 1, status = 1\<rparr>))"

text \<open>
  What the provider answers: \<^verbatim>\<open>response.ok\<close> and what \<^verbatim>\<open>response.json()\<close> returns or raises.
  \<^verbatim>\<open>raise_for_status\<close> raises exactly when the response is not ok.
\<close>

record http_response =
  ok :: bool
  json_body :: "pyerr + json"

definition raise_for_status :: "http_response \<Rightarrow> pyerr + unit" where
  "raise_for_status r = (if ok r then Inr () else Inl HTTPError)"

section \<open>Ledger Store\<close>

text \<open>
  A statement is built by interpolating values into a text. It is represented by the
  template and the values interpolated, each between quotes or bare, as the template has
  it. The type of the values is a parameter: the coordinator passes what the parser and
  the provider gave it.
\<close>

datatype 'v arg = Quoted 'v | Bare 'v

record 'v update_user_payment =
  set_Billing_FLG :: string
  set_Settlement_FLG :: string
  set_Error_Comment :: "'v option"
  where_Merchant_Code :: 'v
  where_User_Code :: 'v
  where_Billing_FLG :: string

datatype 'v sql =
    INSERT_DEBITHISTORY "(string \<times> 'v arg) list"
  | UPDATE_USER_PAYMENT "'v update_user_payment"

text \<open>
  What an invocation does to the outside, in order: the request posted to the provider and
  the statements handed to \<^verbatim>\<open>execution_query\<close>. The world is the database and this history.
\<close>

datatype 'v effect = HttpPost debit_request | SqlQuery "'v sql"

record ('v, 'db) world =
  db :: 'db
  effects :: "'v effect list"

text \<open>
  \<open>run\<close> is the connection: the database after \<^verbatim>\<open>cursor.execute\<close> and \<^verbatim>\<open>connection.commit\<close>, or
  \<open>None\<close> when connecting, executing or committing raises (the database is then as it was).
  \<^verbatim>\<open>execution_query\<close> catches every exception and returns a flag.
\<close>

definition execution_query ::
  "('v sql \<Rightarrow> 'db \<Rightarrow> 'db option) \<Rightarrow> 'v sql \<Rightarrow> ('v, 'db) world \<Rightarrow> bool \<times> ('v, 'db) world" where
  "execution_query run query w =
     (let w1 = w\<lparr>effects := effects w @ [SqlQuery query]\<rparr>
      in case run query (db w) of
           Some d \<Rightarrow> (True, w1\<lparr>db := d\<rparr>)
         | None \<Rightarrow> (False, w1))"

text \<open>The two update statements, as the f-strings of the source build them.\<close>

definition settled_query :: "'v \<Rightarrow> 'v \<Rightarrow> 'v sql" where
  "settled_query merchant_code user_code =
     UPDATE_USER_PAYMENT
       \<lparr>set_Billing_FLG = BILLING_FLAG_FINISHED, set_Settlement_FLG = SETTLEMENT_SUCCESS,
        set_Error_Comment = None,
        where_Merchant_Code = merchant_code, where_User_Code = user_code,
        where_Billing_FLG = BILLING_FLAG_PENDING\<rparr>"

definition error_query :: "'v \<Rightarrow> 'v \<Rightarrow> 'v \<Rightarrow> 'v sql" where
  "error_query merchant_code user_code error =
     UPDATE_USER_PAYMENT
       \<lparr>set_Billing_FLG = BILLING_FLAG_FINISHED, set_Settlement_FLG = SETTLEMENT_FAILURE,
        set_Error_Comment = Some error,
        where_Merchant_Code = merchant_code, where_User_Code = user_code,
        where_Billing_FLG = BILLING_FLAG_PENDING\<rparr>"

definition update_billing_to_settled ::
  "('v sql \<Rightarrow> 'db \<Rightarrow> 'db option) \<Rightarrow> 'v \<Rightarrow> 'v \<Rightarrow> ('v, 'db) world \<Rightarrow> ('v, 'db) world" where
  "update_billing_to_settled run merchant_code user_code w =
     snd (execution_query run (settled_query merchant_code user_code) w)"

definition update_billing_error ::
  "('v sql \<Rightarrow> 'db \<Rightarrow> 'db option) \<Rightarrow> 'v \<Rightarrow> 'v \<Rightarrow> 'v \<Rightarrow> ('v, 'db) world \<Rightarrow> ('v, 'db) world" where
  "update_billing_error run merchant_code user_code error w =
     snd (execution_query run (error_query merchant_code user_code error) w)"

text \<open>
  The insert statement. Its text reads ten columns with \<^verbatim>\<open>data.get\<close>: a value that is not a
  dict has no such method, and a key that is absent gives \<^verbatim>\<open>None\<close>.
\<close>

definition insert_sql :: "json \<Rightarrow> json \<Rightarrow> json \<Rightarrow> pyerr + json sql" where
  "insert_sql data merchant_code user_code =
     (case data of
        JObj kvs \<Rightarrow>
          (let get = (\<lambda>k. case map_of kvs k of None \<Rightarrow> JNull | Some v \<Rightarrow> v)
           in Inr (INSERT_DEBITHISTORY
                [(''request_id'', Quoted (get ''request_id'')),
                 (''Merchant_Code'', Quoted merchant_code),
                 (''User_Code'', Quoted user_code),
                 (''amount'', Bare (get ''amount'')),
                 (''tax'', Bare (get ''tax'')),
                 (''ship_fee'', Bare (get ''ship_fee'')),
                 (''custom_code'', Quoted (get ''custom_code'')),
                 (''next_transfer'', Quoted (get ''next_transfer'')),
                 (''transfer_type'', Quoted (get ''transfer_type'')),
                 (''transfer_count'', Bare (get ''transfer_count'')),
                 (''status'', Quoted (get ''status'')),
                 (''item_code'', Quoted (get ''item_code''))]))
      | _ \<Rightarrow> Inl AttributeError)"

definition insert_debit_history ::
  "(json sql \<Rightarrow> 'db \<Rightarrow> 'db option) \<Rightarrow> json \<Rightarrow> json \<Rightarrow> json \<Rightarrow> (json, 'db) world \<Rightarrow>
     (pyerr + unit) \<times> (json, 'db) world" where
  "insert_debit_history run data merchant_code user_code w =
     (case insert_sql data merchant_code user_code of
        Inl e \<Rightarrow> (Inl e, w)
      | Inr query \<Rightarrow> (Inr (), snd (execution_query run query w)))"

subsection \<open>The text of an update and what the database reads in it\<close>

text \<open>
  The f-strings of \<^verbatim>\<open>update_billing_to_settled\<close> and \<^verbatim>\<open>update_billing_error\<close>, after \<^verbatim>\<open>strip()\<close>, for
  parameters that are strings: every value is put between single quotes as it is, with no
  escaping.
\<close>

definition between_quotes :: "string \<Rightarrow> string" where
  "between_quotes s = CHR 0x27 # s @ [CHR 0x27]"

definition update_text :: "string update_user_payment \<Rightarrow> string" where
  "update_text u =
     ''UPDATE TBL_USER_PAYMENT'' @ CHR 0x0A #
     ''    SET `Billing_FLG` = '' @ between_quotes (set_Billing_FLG u) @
     '', `Settlement_FLG` = '' @ between_quotes (set_Settlement_FLG u) @
     (case set_Error_Comment u of
        None \<Rightarrow> []
      | Some error \<Rightarrow> '', `Error_Comment` = '' @ between_quotes error) @ CHR 0x0A #
     ''    WHERE `Merchant_Code` = '' @ between_quotes (where_Merchant_Code u) @ CHR 0x0A #
     ''      AND `User_Code` = '' @ between_quotes (where_User_Code u) @ CHR 0x0A #
     ''      AND `Billing_FLG` = '' @ between_quotes (where_Billing_FLG u)"

text \<open>
  The billing table: the five columns that the statements name. Strings are compared as
  they are (the schema and its collation are not part of the repository).
\<close>

record user_payment =
  Merchant_Code :: string
  User_Code :: string
  Billing_FLG :: string
  Settlement_FLG :: string
  Error_Comment :: string

text \<open>
  The database reads the text, not the template. The part of SQL that is modelled: words,
  names between backquotes, string literals between single quotes in which no quote and no
  backslash occurs, the equals sign and the comma; a statement
  \<^verbatim>\<open>UPDATE TBL_USER_PAYMENT SET name = 'text', ... WHERE\<close> followed by comparisons joined by
  \<^verbatim>\<open>AND\<close> and \<^verbatim>\<open>OR\<close>, where \<^verbatim>\<open>AND\<close> binds tighter. On any other text the functions below give
  \<open>None\<close>, and what the database does with it is left open.
\<close>

datatype token = Word string | Name string | Text string | Equals | Comma

datatype mode = Between | AfterText | InWord string | InText string | InName string

definition is_word_char :: "char \<Rightarrow> bool" where
  "is_word_char c =
     (let n = (of_char c :: nat)
      in (48 \<le> n \<and> n \<le> 57) \<or> (65 \<le> n \<and> n \<le> 90) \<or> (97 \<le> n \<and> n \<le> 122) \<or> n = 95)"

fun close_word :: "mode \<Rightarrow> token list \<Rightarrow> token list" where
  "close_word (InWord w) ts = Word (rev w) # ts"
| "close_word Between ts = ts"
| "close_word AfterText ts = ts"
| "close_word (InText s) ts = ts"
| "close_word (InName s) ts = ts"

text \<open>
  One pass over the text; the word, literal or name being read is kept reversed, and so is
  the list of the tokens read.
\<close>

fun scan :: "mode \<Rightarrow> token list \<Rightarrow> string \<Rightarrow> token list option" where
  "scan (InText s) ts [] = None"
| "scan (InName s) ts [] = None"
| "scan (InWord w) ts [] = Some (rev (Word (rev w) # ts))"
| "scan Between ts [] = Some (rev ts)"
| "scan AfterText ts [] = Some (rev ts)"
| "scan (InText s) ts (c # cs) =
     (if c = CHR 0x27 then scan AfterText (Text (rev s) # ts) cs
      else if c = CHR 0x5C then None
      else scan (InText (c # s)) ts cs)"
| "scan (InName s) ts (c # cs) =
     (if c = CHR 0x60 then scan Between (Name (rev s) # ts) cs
      else scan (InName (c # s)) ts cs)"
| "scan (InWord w) ts (c # cs) =
     (if is_word_char c then scan (InWord (c # w)) ts cs
      else if c = CHR 0x27 then None
      else if c = CHR 0x60 then None
      else if is_space c then scan Between (Word (rev w) # ts) cs
      else if c = CHR ''='' then scan Between (Equals # Word (rev w) # ts) cs
      else if c = CHR '','' then scan Between (Comma # Word (rev w) # ts) cs
      else None)"
| "scan Between ts (c # cs) =
     (if is_word_char c then scan (InWord [c]) ts cs
      else if c = CHR 0x27 then scan (InText []) ts cs
      else if c = CHR 0x60 then scan (InName []) ts cs
      else if is_space c then scan Between ts cs
      else if c = CHR ''='' then scan Between (Equals # ts) cs
      else if c = CHR '','' then scan Between (Comma # ts) cs
      else None)"
| "scan AfterText ts (c # cs) =
     (if is_word_char c then None
      else if c = CHR 0x27 then None
      else if c = CHR 0x60 then None
      else if is_space c then scan Between ts cs
      else if c = CHR ''='' then scan Between (Equals # ts) cs
      else if c = CHR '','' then scan Between (Comma # ts) cs
      else None)"

datatype operand = Column string | Literal string

definition columns :: "string list" where
  "columns = [''Merchant_Code'', ''User_Code'', ''Billing_FLG'', ''Settlement_FLG'', ''Error_Comment'']"

fun operand_of :: "token \<Rightarrow> operand option" where
  "operand_of (Name n) = (if n \<in> set columns then Some (Column n) else None)"
| "operand_of (Word w) = (if w \<in> set columns then Some (Column w) else None)"
| "operand_of (Text s) = Some (Literal s)"
| "operand_of Equals = None"
| "operand_of Comma = None"

text \<open>
  The condition after \<^verbatim>\<open>WHERE\<close>: a list of alternatives (joined by \<^verbatim>\<open>OR\<close>), each a list of
  comparisons (joined by \<^verbatim>\<open>AND\<close>).
\<close>

fun condition :: "token list \<Rightarrow> (operand \<times> operand) list list option" where
  "condition (x # Equals # y # rest) =
     (case (operand_of x, operand_of y) of
        (Some a, Some b) \<Rightarrow>
          (case rest of
             [] \<Rightarrow> Some [[(a, b)]]
           | Word k # rest' \<Rightarrow>
               if map lower k = ''and'' then
                 (case condition rest' of
                    Some (cmps # alts) \<Rightarrow> Some (((a, b) # cmps) # alts)
                  | _ \<Rightarrow> None)
               else if map lower k = ''or'' then
                 (case condition rest' of
                    Some alts \<Rightarrow> Some ([(a, b)] # alts)
                  | None \<Rightarrow> None)
               else None
           | _ \<Rightarrow> None)
      | _ \<Rightarrow> None)"
| "condition ts = None"

text \<open>The assignments after \<^verbatim>\<open>SET\<close>, up to \<^verbatim>\<open>WHERE\<close>, and the tokens that follow it.\<close>

fun assignments :: "token list \<Rightarrow> ((string \<times> string) list \<times> token list) option" where
  "assignments (Name c # Equals # Text v # Comma # rest) =
     (if c \<in> set columns then
        (case assignments rest of
           Some (as, r) \<Rightarrow> Some ((c, v) # as, r)
         | None \<Rightarrow> None)
      else None)"
| "assignments (Name c # Equals # Text v # Word k # rest) =
     (if c \<in> set columns \<and> map lower k = ''where'' then Some ([(c, v)], rest) else None)"
| "assignments ts = None"

definition parse_update ::
  "string \<Rightarrow> ((string \<times> string) list \<times> (operand \<times> operand) list list) option" where
  "parse_update text =
     (case scan Between [] text of
        Some (Word u # Word t # Word s # rest) \<Rightarrow>
          if map lower u = ''update'' \<and> t = ''TBL_USER_PAYMENT'' \<and> map lower s = ''set'' then
            (case assignments rest of
               Some (as, r) \<Rightarrow>
                 (case condition r of Some c \<Rightarrow> Some (as, c) | None \<Rightarrow> None)
             | None \<Rightarrow> None)
          else None
      | _ \<Rightarrow> None)"

definition column :: "string \<Rightarrow> user_payment \<Rightarrow> string" where
  "column c r =
     (if c = ''Merchant_Code'' then Merchant_Code r
      else if c = ''User_Code'' then User_Code r
      else if c = ''Billing_FLG'' then Billing_FLG r
      else if c = ''Settlement_FLG'' then Settlement_FLG r
      else Error_Comment r)"

fun operand_value :: "operand \<Rightarrow> user_payment \<Rightarrow> string" where
  "operand_value (Column c) r = column c r"
| "operand_value (Literal s) r = s"

definition holds :: "(operand \<times> operand) list list \<Rightarrow> user_payment \<Rightarrow> bool" where
  "holds c r = list_ex (list_all (\<lambda>(a, b). operand_value a r = operand_value b r)) c"

definition set_column :: "user_payment \<Rightarrow> string \<times> string \<Rightarrow> user_payment" where
  "set_column r a =
     (if fst a = ''Merchant_Code'' then r\<lparr>Merchant_Code := snd a\<rparr>
      else if fst a = ''User_Code'' then r\<lparr>User_Code := snd a\<rparr>
      else if fst a = ''Billing_FLG'' then r\<lparr>Billing_FLG := snd a\<rparr>
      else if fst a = ''Settlement_FLG'' then r\<lparr>Settlement_FLG := snd a\<rparr>
      else r\<lparr>Error_Comment := snd a\<rparr>)"

definition updated :: "(string \<times> string) list \<Rightarrow> user_payment \<Rightarrow> user_payment" where
  "updated as r = foldl set_column r as"

text \<open>
  The connection to the billing table. A statement in the modelled part is carried out on
  every row for which the condition holds; \<open>other\<close> is what the database does with any
  other statement.
\<close>

definition mysql ::
  "(string sql \<Rightarrow> user_payment list \<Rightarrow> user_payment list option) \<Rightarrow>
     string sql \<Rightarrow> user_payment list \<Rightarrow> user_payment list option" where
  "mysql other query rows =
     (case query of
        INSERT_DEBITHISTORY vs \<Rightarrow> other query rows
      | UPDATE_USER_PAYMENT u \<Rightarrow>
          (case parse_update (update_text u) of
             Some (as, c) \<Rightarrow> Some (map (\<lambda>r. if holds c r then updated as r else r) rows)
           | None \<Rightarrow> other query rows))"

text \<open>The rows that a statement changes: 0 when the connection fails.\<close>

definition rows_affected ::
  "(string sql \<Rightarrow> user_payment list \<Rightarrow> user_payment list option) \<Rightarrow>
     string sql \<Rightarrow> user_payment list \<Rightarrow> nat" where
  "rows_affected run query rows =
     (case run query rows of
        None \<Rightarrow> 0
      | Some rows' \<Rightarrow> length (filter (\<lambda>(r, r'). r \<noteq> r') (zip rows rows')))"

definition quote_free :: "string \<Rightarrow> bool" where
  "quote_free s = (CHR 0x27 \<notin> set s \<and> CHR 0x5C \<notin> set s)"

section \<open>Outcome Coordinator\<close>

record event =
  Records :: "sqs_record list option"

definition send_request_debit ::
  "(debit_request \<Rightarrow> pyerr + http_response) \<Rightarrow> debit_request \<Rightarrow> ('v, 'db) world \<Rightarrow>
     (pyerr + http_response) \<times> ('v, 'db) world" where
  "send_request_debit post request_body w =
     (post request_body, w\<lparr>effects := effects w @ [HttpPost request_body]\<rparr>)"

text \<open>The handler from the insert of the history on.\<close>

definition record_outcome ::
  "(json sql \<Rightarrow> 'db \<Rightarrow> 'db option) \<Rightarrow> json \<Rightarrow> json \<Rightarrow> json \<Rightarrow> (json, 'db) world \<Rightarrow>
     (pyerr + unit) \<times> (json, 'db) world" where
  "record_outcome run response_json merchant_code user_code w =
     (case insert_debit_history run response_json merchant_code user_code w of
        (Inl e, w1) \<Rightarrow> (Inl e, w1)
      | (Inr u, w1) \<Rightarrow>
          (case py_getitem response_json ''status'' of
             Inl e \<Rightarrow> (Inl e, w1)
           | Inr st \<Rightarrow>
               if py_eq_int st SUCCESS_FLAG
               then (Inr (), update_billing_to_settled run merchant_code user_code w1)
               else (Inl (ValueError status_is_disabled),
                     update_billing_error run merchant_code user_code (JStr ''error'') w1)))"

text \<open>The body of the \<^verbatim>\<open>try\<close>: the exception raised, if any, and the world it leaves.\<close>

definition process_record ::
  "(json sql \<Rightarrow> 'db \<Rightarrow> 'db option) \<Rightarrow> (debit_request \<Rightarrow> pyerr + http_response) \<Rightarrow>
     sqs_record \<Rightarrow> (json, 'db) world \<Rightarrow> (pyerr + unit) \<times> (json, 'db) world" where
  "process_record run post record w =
     (case parse_message record of
        Inl e \<Rightarrow> (Inl e, w)
      | Inr (message_data, billing_id, merchant_code, user_code, direct_debit_id, amount') \<Rightarrow>
          (case get_request_body direct_debit_id amount' of
             Inl e \<Rightarrow> (Inl e, w)
           | Inr request_body \<Rightarrow>
               (case send_request_debit post request_body w of
                  (Inl e, w1) \<Rightarrow> (Inl e, w1)
                | (Inr response, w1) \<Rightarrow>
                    (case json_body response of
                       Inl e \<Rightarrow> (Inl e, w1)
                     | Inr response_json \<Rightarrow>
                         if \<not> ok response then
                           (case py_getitem response_json ''err'' of
                              Inl e \<Rightarrow> (Inl e, w1)
                            | Inr err \<Rightarrow>
                                (case py_getitem err ''ec'' of
                                   Inl e \<Rightarrow> (Inl e, w1)
                                 | Inr ec \<Rightarrow>
                                     (let w2 = update_billing_error run merchant_code user_code ec w1
                                      in case raise_for_status response of
                                           Inl e \<Rightarrow> (Inl e, w2)
                                         | Inr u \<Rightarrow>
                                             record_outcome run response_json merchant_code
                                               user_code w2)))
                         else record_outcome run response_json merchant_code user_code w1))))"

definition success_response :: "int \<Rightarrow> int \<Rightarrow> response" where
  "success_response success_count num_records =
     \<lparr>statusCode = 200,
      body = ''\"successed success_count / num_records = '' @ str_int success_count @ '' / '' @
             str_int num_records @ ''\"''\<rparr>"

text \<open>
  The handler returns a response (\<open>Inr\<close>) or lets an exception escape (\<open>Inl\<close>). The pause of
  one second after a settlement changes neither the result nor the world.
\<close>

definition lambda_handler ::
  "(json sql \<Rightarrow> 'db \<Rightarrow> 'db option) \<Rightarrow> (debit_request \<Rightarrow> pyerr + http_response) \<Rightarrow>
     event \<Rightarrow> (json, 'db) world \<Rightarrow> (pyerr + response) \<times> (json, 'db) world" where
  "lambda_handler run post event w =
     (let records = (case Records event of None \<Rightarrow> [] | Some rs \<Rightarrow> rs)
      in if length records \<noteq> 1 then (Inl AssertionError, w)
         else (case process_record run post (records ! 0) w of
                 (Inl e, w1) \<Rightarrow> (Inr ERROR_CODE_REQUEST, w1)
               | (Inr u, w1) \<Rightarrow> (Inr (success_response 1 (int (length records))), w1)))"

section \<open>Example inputs\<close>

text \<open>
  A billing table with a finished row for merchant m1 and user u1, and a pending row. A
  database that refuses every statement outside the modelled part of SQL.
\<close>

definition finished_world :: "(string, user_payment list) world" where
  "finished_world =
     \<lparr>db = [\<lparr>Merchant_Code = ''m1'', User_Code = ''u1'', Billing_FLG = ''2'',
              Settlement_FLG = ''1'', Error_Comment = []\<rparr>,
             \<lparr>Merchant_Code = ''m1'', User_Code = ''u2'', Billing_FLG = ''1'',
              Settlement_FLG = [], Error_Comment = []\<rparr>],
      effects = []\<rparr>"

definition refuse :: "string sql \<Rightarrow> user_payment list \<Rightarrow> user_payment list option" where
  "refuse query rows = None"

text \<open>
  A user code with quotes in it, \<^verbatim>\<open>zz' OR `User_Code` = 'u1' OR 'a' = 'b\<close>, and a billing table
  with two finished rows: one for user u1 and one for this user code.
\<close>

definition quoted_user_code :: string where
  "quoted_user_code =
     ''zz'' @ CHR 0x27 # '' OR `User_Code` = '' @ between_quotes ''u1'' @
     '' OR '' @ between_quotes ''a'' @ '' = '' @ CHR 0x27 # ''b''"

definition quoted_world :: "(string, user_payment list) world" where
  "quoted_world =
     \<lparr>db = [\<lparr>Merchant_Code = ''m1'', User_Code = ''u1'', Billing_FLG = ''2'',
              Settlement_FLG = ''1'', Error_Comment = []\<rparr>,
             \<lparr>Merchant_Code = ''m1'', User_Code = quoted_user_code, Billing_FLG = ''2'',
              Settlement_FLG = ''1'', Error_Comment = []\<rparr>],
      effects = []\<rparr>"

text \<open>The end-to-end message of the specification, and answers of the provider.\<close>

definition message_b1 :: json where
  "message_b1 =
     JObj [(''billing_id'', JStr ''b1''), (''merchant_code'', JStr ''m1''),
           (''user_code'', JStr ''u1''), (''direct_debit_id'', JStr ''42''),
           (''amount'', JStr ''500.00'')]"

definition record_b1 :: sqs_record where
  "record_b1 = \<lparr>record_body = Some (Decodes message_b1)\<rparr>"

definition request_b1 :: debit_request where
  "request_b1 =
     \<lparr>customer_id = 42, amount = 500, tax = 0, ship_fee = 0, transfer_type = 1, status = 1\<rparr>"

definition response_settled :: http_response where
  "response_settled =
     \<lparr>ok = True, json_body = Inr (JObj [(''status'', JInt 1), (''request_id'', JStr ''r1'')])\<rparr>"

definition response_disabled :: http_response where
  "response_disabled = \<lparr>ok = True, json_body = Inr (JObj [(''status'', JInt 2)])\<rparr>"

definition response_rejected :: http_response where
  "response_rejected =
     \<lparr>ok = False, json_body = Inr (JObj [(''err'', JObj [(''ec'', JStr ''E001'')])])\<rparr>"

definition response_no_code :: http_response where
  "response_no_code =
     \<lparr>ok = False, json_body = Inr (JObj [(''message'', JStr ''Internal Server Error'')])\<rparr>"

text \<open>
  Two connections, on a database that is the list of the statements committed: one that
  commits every statement, one that is down.
\<close>

definition run_log :: "json sql \<Rightarrow> json sql list \<Rightarrow> json sql list option" where
  "run_log query d = Some (d @ [query])"

definition run_down :: "json sql \<Rightarrow> json sql list \<Rightarrow> json sql list option" where
  "run_down query d = None"

definition world0 :: "(json, json sql list) world" where
  "world0 = \<lparr>db = [], effects = []\<rparr>"

text \<open>The history inserts that the answers \<open>response_settled\<close> and \<open>response_disabled\<close> lead to.\<close>

definition history_settled :: "json sql" where
  "history_settled =
     INSERT_DEBITHISTORY
       [(''request_id'', Quoted (JStr ''r1'')), (''Merchant_Code'', Quoted (JStr ''m1'')),
        (''User_Code'', Quoted (JStr ''u1'')), (''amount'', Bare JNull), (''tax'', Bare JNull),
        (''ship_fee'', Bare JNull), (''custom_code'', Quoted JNull),
        (''next_transfer'', Quoted JNull), (''transfer_type'', Quoted JNull),
        (''transfer_count'', Bare JNull), (''status'', Quoted (JInt 1)),
        (''item_code'', Quoted JNull)]"

definition history_disabled :: "json sql" where
  "history_disabled =
     INSERT_DEBITHISTORY
       [(''request_id'', Quoted JNull), (''Merchant_Code'', Quoted (JStr ''m1'')),
        (''User_Code'', Quoted (JStr ''u1'')), (''amount'', Bare JNull), (''tax'', Bare JNull),
        (''ship_fee'', Bare JNull), (''custom_code'', Quoted JNull),
        (''next_transfer'', Quoted JNull), (''transfer_type'', Quoted JNull),
        (''transfer_count'', Bare JNull), (''status'', Quoted (JInt 2)),
        (''item_code'', Quoted JNull)]"

text \<open>A message whose amount starts with the control character 0x1F, which is not stripped.\<close>

definition record_unit_separator :: sqs_record where
  "record_unit_separator =
     \<lparr>record_body = Some (Decodes
        (JObj [(''billing_id'', JStr ''b1''), (''merchant_code'', JStr ''m1''),
               (''user_code'', JStr ''u1''), (''direct_debit_id'', JStr ''42''),
               (''amount'', JStr (CHR 0x1F # ''12''))]))\<rparr>"

text \<open>
  The record whose body decodes to a given value, and a message with the five required
  fields whose amount is a given value.
\<close>

definition record_of :: "json \<Rightarrow> sqs_record" where
  "record_of message_data = \<lparr>record_body = Some (Decodes message_data)\<rparr>"


section \<open>Properties of the Ledger Store\<close>

lemma scan_text:
  assumes "quote_free s"
  shows "scan (InText acc) ts (s @ CHR 0x27 # rest) = scan AfterText (Text (rev acc @ s) # ts) rest"
  using assms by (induction s arbitrary: acc) (auto simp: quote_free_def)

lemma scan_settled:
  assumes "quote_free m" and "quote_free u"
  shows "scan Between [] (update_text
            \<lparr>set_Billing_FLG = ''2'', set_Settlement_FLG = ''1'', set_Error_Comment = None,
             where_Merchant_Code = m, where_User_Code = u, where_Billing_FLG = ''1''\<rparr>) =
         Some [Word ''UPDATE'', Word ''TBL_USER_PAYMENT'', Word ''SET'',
               Name ''Billing_FLG'', Equals, Text ''2'', Comma,
               Name ''Settlement_FLG'', Equals, Text ''1'',
               Word ''WHERE'', Name ''Merchant_Code'', Equals, Text m,
               Word ''AND'', Name ''User_Code'', Equals, Text u,
               Word ''AND'', Name ''Billing_FLG'', Equals, Text ''1'']"
  using assms
  by (simp add: update_text_def between_quotes_def scan_text is_word_char_def is_space_def)

lemma scan_error:
  assumes "quote_free m" and "quote_free u" and "quote_free e"
  shows "scan Between [] (update_text
            \<lparr>set_Billing_FLG = ''2'', set_Settlement_FLG = ''2'', set_Error_Comment = Some e,
             where_Merchant_Code = m, where_User_Code = u, where_Billing_FLG = ''1''\<rparr>) =
         Some [Word ''UPDATE'', Word ''TBL_USER_PAYMENT'', Word ''SET'',
               Name ''Billing_FLG'', Equals, Text ''2'', Comma,
               Name ''Settlement_FLG'', Equals, Text ''2'', Comma,
               Name ''Error_Comment'', Equals, Text e,
               Word ''WHERE'', Name ''Merchant_Code'', Equals, Text m,
               Word ''AND'', Name ''User_Code'', Equals, Text u,
               Word ''AND'', Name ''Billing_FLG'', Equals, Text ''1'']"
  using assms
  by (simp add: update_text_def between_quotes_def scan_text is_word_char_def is_space_def)

lemma lower_keywords:
  "lower CHR ''U'' = CHR ''u''"
  "lower CHR ''P'' = CHR ''p''"
  "lower CHR ''D'' = CHR ''d''"
  "lower CHR ''A'' = CHR ''a''"
  "lower CHR ''T'' = CHR ''t''"
  "lower CHR ''E'' = CHR ''e''"
  "lower CHR ''S'' = CHR ''s''"
  "lower CHR ''W'' = CHR ''w''"
  "lower CHR ''H'' = CHR ''h''"
  "lower CHR ''R'' = CHR ''r''"
  "lower CHR ''N'' = CHR ''n''"
  by code_simp+

lemma condition_three:
  "condition [Name ''Merchant_Code'', Equals, Text m,
              Word ''AND'', Name ''User_Code'', Equals, Text u,
              Word ''AND'', Name ''Billing_FLG'', Equals, Text f] =
     Some [[(Column ''Merchant_Code'', Literal m), (Column ''User_Code'', Literal u),
            (Column ''Billing_FLG'', Literal f)]]"
  by (simp add: columns_def lower_keywords)

lemma parse_settled:
  assumes "quote_free m" and "quote_free u"
  shows "parse_update (update_text
            \<lparr>set_Billing_FLG = ''2'', set_Settlement_FLG = ''1'', set_Error_Comment = None,
             where_Merchant_Code = m, where_User_Code = u, where_Billing_FLG = ''1''\<rparr>) =
         Some ([(''Billing_FLG'', ''2''), (''Settlement_FLG'', ''1'')],
               [[(Column ''Merchant_Code'', Literal m), (Column ''User_Code'', Literal u),
                 (Column ''Billing_FLG'', Literal ''1'')]])"
  by (simp add: parse_update_def scan_settled [OF assms] condition_three columns_def lower_keywords)

lemma parse_error:
  assumes "quote_free m" and "quote_free u" and "quote_free e"
  shows "parse_update (update_text
            \<lparr>set_Billing_FLG = ''2'', set_Settlement_FLG = ''2'', set_Error_Comment = Some e,
             where_Merchant_Code = m, where_User_Code = u, where_Billing_FLG = ''1''\<rparr>) =
         Some ([(''Billing_FLG'', ''2''), (''Settlement_FLG'', ''2''), (''Error_Comment'', e)],
               [[(Column ''Merchant_Code'', Literal m), (Column ''User_Code'', Literal u),
                 (Column ''Billing_FLG'', Literal ''1'')]])"
  by (simp add: parse_update_def scan_error [OF assms] condition_three columns_def lower_keywords)

lemma holds_three:
  "holds [[(Column ''Merchant_Code'', Literal m), (Column ''User_Code'', Literal u),
           (Column ''Billing_FLG'', Literal f)]] r =
     (Merchant_Code r = m \<and> User_Code r = u \<and> Billing_FLG r = f)"
  by (simp add: holds_def column_def)

lemma update_none_held:
  assumes "\<forall>r \<in> set rows. \<not> holds c r"
  shows "map (\<lambda>r. if holds c r then updated as r else r) rows = rows"
  using assms by (induction rows) auto

lemma no_row_differs: "filter (\<lambda>(r, r'). r \<noteq> r') (zip rows rows) = []"
  by (induction rows) auto

lemma mysql_settled_finished:
  assumes "quote_free m" and "quote_free u"
    and "\<forall>r \<in> set rows. Merchant_Code r = m \<and> User_Code r = u \<longrightarrow> Billing_FLG r = ''2''"
  shows "mysql other (settled_query m u) rows = Some rows"
proof -
  have "\<forall>r \<in> set rows. \<not> holds [[(Column ''Merchant_Code'', Literal m),
          (Column ''User_Code'', Literal u), (Column ''Billing_FLG'', Literal ''1'')]] r"
    using assms(3) by (auto simp: holds_three)
  then show ?thesis
    by (simp add: mysql_def settled_query_def BILLING_FLAG_FINISHED_def SETTLEMENT_SUCCESS_def
        BILLING_FLAG_PENDING_def parse_settled [OF assms(1,2)] update_none_held)
qed

lemma mysql_error_finished:
  assumes "quote_free m" and "quote_free u" and "quote_free e"
    and "\<forall>r \<in> set rows. Merchant_Code r = m \<and> User_Code r = u \<longrightarrow> Billing_FLG r = ''2''"
  shows "mysql other (error_query m u e) rows = Some rows"
proof -
  have "\<forall>r \<in> set rows. \<not> holds [[(Column ''Merchant_Code'', Literal m),
          (Column ''User_Code'', Literal u), (Column ''Billing_FLG'', Literal ''1'')]] r"
    using assms(4) by (auto simp: holds_three)
  then show ?thesis
    by (simp add: mysql_def error_query_def BILLING_FLAG_FINISHED_def SETTLEMENT_FAILURE_def
        BILLING_FLAG_PENDING_def parse_error [OF assms(1,2,3)] update_none_held)
qed

text \<open>
  C9, as amended. The merchant code, the user code and the error text contain no quote and
  no backslash, and every row of the billing table with this merchant code and user code
  is FINISHED. Then the database reads in the text of either update the three conditions of
  the template, no row satisfies them, and so: 0 rows are affected, \<^verbatim>\<open>execution_query\<close> returns
  \<^verbatim>\<open>True\<close> (nothing is raised), and the table is as it was. This holds whatever the database
  does with statements outside the modelled part of SQL.
\<close>

theorem finished_record_untouched:
  assumes "quote_free merchant_code" and "quote_free user_code" and "quote_free error"
    and "\<forall>r \<in> set (db w).
           Merchant_Code r = merchant_code \<and> User_Code r = user_code \<longrightarrow>
           Billing_FLG r = BILLING_FLAG_FINISHED"
  shows "rows_affected (mysql other) (settled_query merchant_code user_code) (db w) = 0 \<and>
         rows_affected (mysql other) (error_query merchant_code user_code error) (db w) = 0 \<and>
         fst (execution_query (mysql other) (settled_query merchant_code user_code) w) \<and>
         fst (execution_query (mysql other) (error_query merchant_code user_code error) w) \<and>
         db (update_billing_to_settled (mysql other) merchant_code user_code w) = db w \<and>
         db (update_billing_error (mysql other) merchant_code user_code error w) = db w"
proof -
  have fin: "\<forall>r \<in> set (db w).
           Merchant_Code r = merchant_code \<and> User_Code r = user_code \<longrightarrow> Billing_FLG r = ''2''"
    using assms(4) by (simp add: BILLING_FLAG_FINISHED_def)
  have ms: "mysql other (settled_query merchant_code user_code) (db w) = Some (db w)"
    by (rule mysql_settled_finished [OF assms(1,2) fin])
  have me: "mysql other (error_query merchant_code user_code error) (db w) = Some (db w)"
    by (rule mysql_error_finished [OF assms(1,2,3) fin])
  have "rows_affected (mysql other) (settled_query merchant_code user_code) (db w) = 0"
    by (simp add: rows_affected_def ms no_row_differs)
  moreover have "rows_affected (mysql other) (error_query merchant_code user_code error) (db w) = 0"
    by (simp add: rows_affected_def me no_row_differs)
  moreover have "fst (execution_query (mysql other) (settled_query merchant_code user_code) w)"
    by (simp add: execution_query_def ms)
  moreover have
    "fst (execution_query (mysql other) (error_query merchant_code user_code error) w)"
    by (simp add: execution_query_def me)
  moreover have "db (update_billing_to_settled (mysql other) merchant_code user_code w) = db w"
    by (simp add: update_billing_to_settled_def execution_query_def ms)
  moreover have "db (update_billing_error (mysql other) merchant_code user_code error w) = db w"
    by (simp add: update_billing_error_def execution_query_def me)
  ultimately show ?thesis by blast
qed

theorem finished_record_untouched_witness:
  "rows_affected (mysql refuse) (settled_query ''m1'' ''u1'') (db finished_world) = 0 \<and>
   rows_affected (mysql refuse) (error_query ''m1'' ''u1'' ''E001'') (db finished_world) = 0 \<and>
   fst (execution_query (mysql refuse) (settled_query ''m1'' ''u1'') finished_world) \<and>
   fst (execution_query (mysql refuse) (error_query ''m1'' ''u1'' ''E001'') finished_world) \<and>
   db (update_billing_to_settled (mysql refuse) ''m1'' ''u1'' finished_world) = db finished_world \<and>
   db (update_billing_error (mysql refuse) ''m1'' ''u1'' ''E001'' finished_world) =
     db finished_world"
proof -
  have q: "quote_free ''m1''" "quote_free ''u1''" "quote_free ''E001''"
    by (simp_all add: quote_free_def)
  have h: "\<forall>r \<in> set (db finished_world).
             Merchant_Code r = ''m1'' \<and> User_Code r = ''u1'' \<longrightarrow>
             Billing_FLG r = BILLING_FLAG_FINISHED"
    by (simp add: finished_world_def BILLING_FLAG_FINISHED_def)
  show ?thesis
    using finished_record_untouched [OF q h, of refuse] by simp
qed

text \<open>
  C9, as stated, fails when a code has a quote in it. With the user code
  \<^verbatim>\<open>zz' OR `User_Code` = 'u1' OR 'a' = 'b\<close> the row with this merchant and user code is FINISHED,
  yet the text of the failure update has the alternative \<^verbatim>\<open>`User_Code` = 'u1'\<close> that the
  condition on \<^verbatim>\<open>Billing_FLG\<close> does not guard: the finished row of user u1 is rewritten, and 1
  row is affected.
\<close>

theorem quoted_user_code_rewrites_finished_row:
  "map Billing_FLG
     (filter (\<lambda>r. Merchant_Code r = ''m1'' \<and> User_Code r = quoted_user_code) (db quoted_world)) =
     [BILLING_FLAG_FINISHED] \<and>
   db (update_billing_error (mysql refuse) ''m1'' quoted_user_code ''E001'' quoted_world) =
     [\<lparr>Merchant_Code = ''m1'', User_Code = ''u1'', Billing_FLG = ''2'',
       Settlement_FLG = ''2'', Error_Comment = ''E001''\<rparr>,
      \<lparr>Merchant_Code = ''m1'', User_Code = quoted_user_code, Billing_FLG = ''2'',
       Settlement_FLG = ''1'', Error_Comment = []\<rparr>] \<and>
   db (update_billing_error (mysql refuse) ''m1'' quoted_user_code ''E001'' quoted_world) \<noteq>
     db quoted_world \<and>
   rows_affected (mysql refuse) (error_query ''m1'' quoted_user_code ''E001'') (db quoted_world) = 1"
  by code_simp

section \<open>Properties of the Message Parser\<close>

subsection \<open>The required fields\<close>

lemma check_fields_prefix:
  assumes "\<forall>g \<in> set earlier. \<exists>v. map_of kvs g = Some v \<and> v \<noteq> JNull"
  shows "check_fields (JObj kvs) (earlier @ rest) = check_fields (JObj kvs) rest"
  using assms
proof (induction earlier)
  case Nil
  then show ?case by simp
next
  case (Cons g earlier)
  then obtain v where v: "map_of kvs g = Some v" "v \<noteq> JNull" by auto
  from map_of_SomeD [OF v(1)] have "g \<in> fst ` set kvs" by force
  then show ?case using Cons v by simp
qed

text \<open>
  C6, as amended. The payload decodes to a JSON object. The parser fails at the first of the
  five required fields, in the order billing_id, merchant_code, user_code, direct_debit_id,
  amount, that is absent or null (every field before it is present and not null): with the
  missing-field error naming that field when it is absent, with the null-field error naming
  that field when it is present but null.
\<close>

theorem first_offending_field_reported:
  assumes "required_fields = earlier @ field # later"
    and "\<forall>g \<in> set earlier. \<exists>v. map_of kvs g = Some v \<and> v \<noteq> JNull"
  shows "(map_of kvs field = None \<longrightarrow>
            parse_message \<lparr>record_body = Some (Decodes (JObj kvs))\<rparr> =
              Inl (ValueError (Missing_required_field field))) \<and>
         (map_of kvs field = Some JNull \<longrightarrow>
            parse_message \<lparr>record_body = Some (Decodes (JObj kvs))\<rparr> =
              Inl (ValueError (Field_cannot_be_null field)))"
proof -
  have c: "check_fields (JObj kvs) required_fields = check_fields (JObj kvs) (field # later)"
    unfolding assms(1) by (rule check_fields_prefix [OF assms(2)])
  have "map_of kvs field = None \<Longrightarrow>
          check_fields (JObj kvs) (field # later) = Inl (ValueError (Missing_required_field field))"
    by (simp add: map_of_eq_None_iff)
  moreover have "map_of kvs field = Some JNull \<Longrightarrow>
          check_fields (JObj kvs) (field # later) = Inl (ValueError (Field_cannot_be_null field))"
  proof -
    assume a: "map_of kvs field = Some JNull"
    from map_of_SomeD [OF a] have "field \<in> fst ` set kvs" by force
    then show ?thesis using a by simp
  qed
  ultimately show ?thesis by (simp add: parse_message_def c)
qed

theorem first_offending_field_reported_witness:
  "parse_message (record_of (JObj [(''billing_id'', JStr ''b1'')])) =
     Inl (ValueError (Missing_required_field ''merchant_code'')) \<and>
   parse_message (record_of (JObj [(''billing_id'', JStr ''b1''), (''merchant_code'', JNull)])) =
     Inl (ValueError (Field_cannot_be_null ''merchant_code''))"
  using first_offending_field_reported [of "[''billing_id'']" "''merchant_code''"
          "[''user_code'', ''direct_debit_id'', ''amount'']" "[(''billing_id'', JStr ''b1'')]"]
        first_offending_field_reported [of "[''billing_id'']" "''merchant_code''"
          "[''user_code'', ''direct_debit_id'', ''amount'']"
          "[(''billing_id'', JStr ''b1''), (''merchant_code'', JNull)]"]
  by (simp add: required_fields_def record_of_def)

text \<open>
  C6, as stated, fails in two ways. A payload that decodes to a number has none of the five
  fields, and the membership test raises \<^verbatim>\<open>TypeError\<close>: no field is named. In the object
  \<^verbatim>\<open>{"billing_id": null}\<close> the field merchant_code is absent, and the parser fails with the
  null-field error of billing_id, not with a missing-field error naming merchant_code: only
  the first offending field is reported.
\<close>

theorem later_field_not_named:
  "parse_message (record_of (JInt 123)) = Inl TypeError \<and>
   map_of [(''billing_id'', JNull)] ''merchant_code'' = None \<and>
   parse_message (record_of (JObj [(''billing_id'', JNull)])) =
     Inl (ValueError (Field_cannot_be_null ''billing_id''))"
  by (simp add: parse_message_def record_of_def required_fields_def)

subsection \<open>Rounding to a double\<close>










lemma round_half_even_int: "round_half_even (of_int z) = z"
  by (simp add: round_half_even_def Let_def)



subsection \<open>The amount\<close>





















section \<open>Properties of the Outcome Coordinator\<close>

lemma execution_query_effects:
  "effects (snd (execution_query run query w)) = effects w @ [SqlQuery query]"
  by (simp add: execution_query_def Let_def split: option.split)

lemma execution_query_db:
  "db (snd (execution_query run query w)) = (case run query (db w) of None \<Rightarrow> db w | Some d \<Rightarrow> d)"
  by (simp add: execution_query_def Let_def split: option.split)

lemma execution_query_flag:
  "fst (execution_query run query w) = (run query (db w) \<noteq> None)"
  by (simp add: execution_query_def Let_def split: option.split)

lemma settled_effects:
  "effects (update_billing_to_settled run m u w) = effects w @ [SqlQuery (settled_query m u)]"
  by (simp add: update_billing_to_settled_def execution_query_effects)

lemma error_effects:
  "effects (update_billing_error run m u c w) = effects w @ [SqlQuery (error_query m u c)]"
  by (simp add: update_billing_error_def execution_query_effects)

lemma settled_db:
  "db (update_billing_to_settled run m u w) =
     (case run (settled_query m u) (db w) of None \<Rightarrow> db w | Some d \<Rightarrow> d)"
  by (simp add: update_billing_to_settled_def execution_query_db)

lemma error_db:
  "db (update_billing_error run m u c w) =
     (case run (error_query m u c) (db w) of None \<Rightarrow> db w | Some d \<Rightarrow> d)"
  by (simp add: update_billing_error_def execution_query_db)

lemma insert_history_fst:
  "fst (insert_debit_history run data m u w) =
     (case insert_sql data m u of Inl e \<Rightarrow> Inl e | Inr q \<Rightarrow> Inr ())"
  by (simp add: insert_debit_history_def split: sum.split)

lemma insert_history_effects:
  "effects (snd (insert_debit_history run data m u w)) =
     (case insert_sql data m u of Inl e \<Rightarrow> effects w | Inr q \<Rightarrow> effects w @ [SqlQuery q])"
  by (simp add: insert_debit_history_def execution_query_effects split: sum.split)

lemma insert_history_db:
  "db (snd (insert_debit_history run data m u w)) =
     (case insert_sql data m u of Inl e \<Rightarrow> db w
      | Inr q \<Rightarrow> (case run q (db w) of None \<Rightarrow> db w | Some d \<Rightarrow> d))"
  by (simp add: insert_debit_history_def execution_query_db split: sum.split)


lemma record_outcome_rel:
  assumes "effects w' = effects w"
  shows "fst (record_outcome run' rj m u w') = fst (record_outcome run rj m u w) \<and>
         effects (snd (record_outcome run' rj m u w')) = effects (snd (record_outcome run rj m u w))"
  using assms
  by (simp add: record_outcome_def insert_debit_history_def execution_query_effects
      settled_effects error_effects split: sum.split prod.split)

lemma process_record_rel:
  assumes "effects w' = effects w"
  shows "fst (process_record run' post r w') = fst (process_record run post r w) \<and>
         effects (snd (process_record run' post r w')) = effects (snd (process_record run post r w))"
proof (cases "parse_message r")
  case (Inl e)
  then show ?thesis using assms by (simp add: process_record_def)
next
  case (Inr p)
  obtain md b m u d a where p: "p = (md, b, m, u, d, a)" by (cases p) auto
  show ?thesis
  proof (cases "get_request_body d a")
    case (Inl e)
    then show ?thesis using assms Inr p by (simp add: process_record_def)
  next
    case req: (Inr request_body)
    let ?w1 = "w\<lparr>effects := effects w @ [HttpPost request_body]\<rparr>"
    let ?w1' = "w'\<lparr>effects := effects w' @ [HttpPost request_body]\<rparr>"
    have e1: "effects ?w1' = effects ?w1" using assms by simp
    show ?thesis
    proof (cases "post request_body")
      case (Inl e)
      then show ?thesis using assms Inr p req
        by (simp add: process_record_def send_request_debit_def)
    next
      case resp: (Inr response)
      show ?thesis
      proof (cases "json_body response")
        case (Inl e)
        then show ?thesis using assms Inr p req resp
          by (simp add: process_record_def send_request_debit_def)
      next
        case rj: (Inr response_json)
        show ?thesis
        proof (cases "ok response")
          case True
          then show ?thesis
            using record_outcome_rel [OF e1, of run' response_json m u run] Inr p req resp rj
            by (simp add: process_record_def send_request_debit_def)
        next
          case False
          then show ?thesis
            using e1 Inr p req resp rj
            by (simp add: process_record_def send_request_debit_def raise_for_status_def
                error_effects split: sum.split)
        qed
      qed
    qed
  qed
qed

lemma handler_rel:
  assumes "effects w' = effects w"
  shows "fst (lambda_handler run' post event w') = fst (lambda_handler run post event w) \<and>
         effects (snd (lambda_handler run' post event w')) =
         effects (snd (lambda_handler run post event w))"
proof -
  let ?rs = "case Records event of None \<Rightarrow> [] | Some rs \<Rightarrow> rs"
  show ?thesis
  proof (cases "length ?rs = 1")
    case False
    then show ?thesis using assms by (simp add: lambda_handler_def)
  next
    case True
    obtain x' v' where a: "process_record run' post (?rs ! 0) w' = (x', v')" by fastforce
    obtain x v where b: "process_record run post (?rs ! 0) w = (x, v)" by fastforce
    from process_record_rel [OF assms, of run' post "?rs ! 0" run] a b
    have "x' = x" and "effects v' = effects v" by simp_all
    then show ?thesis using True a b
      by (simp add: lambda_handler_def split: sum.split)
  qed
qed


lemma handler_single:
  "lambda_handler run post \<lparr>Records = Some [record]\<rparr> w =
     (case process_record run post record w of
        (Inl e, w1) \<Rightarrow> (Inr ERROR_CODE_REQUEST, w1)
      | (Inr u, w1) \<Rightarrow> (Inr (success_response 1 1), w1))"
  by (simp add: lambda_handler_def split: prod.split sum.split)

lemma process_record_parse_error:
  assumes "parse_message record = Inl e"
  shows "process_record run post record w = (Inl e, w)"
  using assms by (simp add: process_record_def)

lemma process_record_response:
  assumes "parse_message record = Inr (message_data, billing_id, merchant_code, user_code, direct_debit_id, amount')"
    and "get_request_body direct_debit_id amount' = Inr request_body"
    and "post request_body = Inr response"
    and "json_body response = Inr response_json"
  shows "process_record run post record w =
     (let w1 = w\<lparr>effects := effects w @ [HttpPost request_body]\<rparr>
      in if \<not> ok response then
           (case py_getitem response_json ''err'' of
              Inl e \<Rightarrow> (Inl e, w1)
            | Inr err \<Rightarrow>
                (case py_getitem err ''ec'' of
                   Inl e \<Rightarrow> (Inl e, w1)
                 | Inr ec \<Rightarrow> (Inl HTTPError, update_billing_error run merchant_code user_code ec w1)))
         else record_outcome run response_json merchant_code user_code w1)"
  using assms
  by (simp add: process_record_def send_request_debit_def raise_for_status_def Let_def
      split: sum.split)

text \<open>
  C2. The provider rejects the debit: the message parses, the request is built and posted,
  the response is not ok and its body has the error code \<open>ec\<close> under \<^verbatim>\<open>err.ec\<close>. Then the handler
  posts once, hands exactly one statement to the store, the failure update for this merchant
  and user with \<open>ec\<close> as the comment, inserts no history, and returns the failure response.
\<close>

theorem provider_rejection_marks_failed:
  assumes "parse_message record =
             Inr (message_data, billing_id, merchant_code, user_code, direct_debit_id, amount')"
    and "get_request_body direct_debit_id amount' = Inr request_body"
    and "post request_body = Inr response"
    and "\<not> ok response"
    and "json_body response = Inr response_json"
    and "py_getitem response_json ''err'' = Inr err"
    and "py_getitem err ''ec'' = Inr ec"
  shows "fst (lambda_handler run post \<lparr>Records = Some [record]\<rparr> w) = Inr ERROR_CODE_REQUEST \<and>
         effects (snd (lambda_handler run post \<lparr>Records = Some [record]\<rparr> w)) =
           effects w @ [HttpPost request_body, SqlQuery (error_query merchant_code user_code ec)] \<and>
         db (snd (lambda_handler run post \<lparr>Records = Some [record]\<rparr> w)) =
           (case run (error_query merchant_code user_code ec) (db w) of
              None \<Rightarrow> db w | Some d \<Rightarrow> d)"
  using assms(4,6,7)
  by (simp add: handler_single
      process_record_response [where post = post and request_body = request_body, OF assms(1,2,3,5)]
      error_effects error_db split: option.split)

text \<open>
  C10. The response is not ok and its body is a dict with no \<^verbatim>\<open>err\<close> key, or with an \<^verbatim>\<open>err\<close>
  dict that has no \<^verbatim>\<open>ec\<close> key. The lookup raises before \<^verbatim>\<open>update_billing_error\<close> is called: the
  handler returns the failure response, and the world is as before but for the request that
  was posted; no statement is handed to the store and the database is untouched.
\<close>

theorem missing_error_code_leaves_pending:
  assumes "parse_message record =
             Inr (message_data, billing_id, merchant_code, user_code, direct_debit_id, amount')"
    and "get_request_body direct_debit_id amount' = Inr request_body"
    and "post request_body = Inr response"
    and "\<not> ok response"
    and "json_body response = Inr (JObj kvs)"
    and "map_of kvs ''err'' = None \<or>
         (\<exists>kvs'. map_of kvs ''err'' = Some (JObj kvs') \<and> map_of kvs' ''ec'' = None)"
  shows "lambda_handler run post \<lparr>Records = Some [record]\<rparr> w =
           (Inr ERROR_CODE_REQUEST, w\<lparr>effects := effects w @ [HttpPost request_body]\<rparr>)"
  using assms(4,6)
  by (auto simp add: handler_single process_record_response [where post = post and request_body = request_body, OF assms(1,2,3,5)])

text \<open>
  C7. When \<^verbatim>\<open>parse_message\<close> raises, whatever the exception, the handler returns the generic
  failure response and the world is unchanged: nothing is posted, no statement is handed to
  the store, the database is as it was.
\<close>

theorem parser_failure_no_effects:
  assumes "parse_message record = Inl e"
  shows "lambda_handler run post \<lparr>Records = Some [record]\<rparr> w = (Inr ERROR_CODE_REQUEST, w)"
  by (simp add: handler_single process_record_parse_error [OF assms])

lemma record_outcome_status:
  assumes "py_getitem response_json ''status'' = Inr st"
  shows "\<exists>query. insert_sql response_json merchant_code user_code = Inr query \<and>
           record_outcome run response_json merchant_code user_code w =
             (if py_eq_int st SUCCESS_FLAG
              then (Inr (), update_billing_to_settled run merchant_code user_code
                              (snd (execution_query run query w)))
              else (Inl (ValueError status_is_disabled),
                    update_billing_error run merchant_code user_code (JStr ''error'')
                      (snd (execution_query run query w))))"
proof -
  obtain kvs where "response_json = JObj kvs"
    using assms by (cases response_json) auto
  then show ?thesis using assms
    by (simp add: insert_sql_def record_outcome_def insert_debit_history_def)
qed


lemma request_body_fields:
  assumes "get_request_body direct_debit_id total_amount = Inr request_body"
  shows "py_int direct_debit_id = Inr (customer_id request_body) \<and>
         int_of_string total_amount = Inr (amount request_body) \<and>
         tax request_body = 0 \<and> ship_fee request_body = 0 \<and>
         transfer_type request_body = 1 \<and> status request_body = 1"
  using assms by (auto simp: get_request_body_def split: sum.splits)

text \<open>
  C3. The message parses, the request is built, and the provider answers ok with a body
  whose \<^verbatim>\<open>status\<close> equals 1. The request has \<^verbatim>\<open>customer_id = int(direct_debit_id)\<close>,
  \<^verbatim>\<open>amount = int(amount)\<close>, \<^verbatim>\<open>tax = 0\<close>, \<^verbatim>\<open>ship_fee = 0\<close>, \<^verbatim>\<open>transfer_type = 1\<close>, \<^verbatim>\<open>status = 1\<close>; the
  handler posts it, then inserts one history row, then runs the settlement update once, and
  returns the response with status code 200. The database is what the connection makes of
  the insert and then of the settlement update (a statement on which the connection fails
  leaves it as it was).
\<close>

theorem settled_on_status_one:
  assumes "parse_message record =
             Inr (message_data, billing_id, merchant_code, user_code, direct_debit_id, amount')"
    and "get_request_body direct_debit_id amount' = Inr request_body"
    and "post request_body = Inr response"
    and "ok response"
    and "json_body response = Inr response_json"
    and "py_getitem response_json ''status'' = Inr st"
    and "py_eq_int st SUCCESS_FLAG"
  shows "py_int direct_debit_id = Inr (customer_id request_body) \<and>
         int_of_string amount' = Inr (amount request_body) \<and>
         tax request_body = 0 \<and> ship_fee request_body = 0 \<and>
         transfer_type request_body = 1 \<and> status request_body = 1 \<and>
         (\<exists>history. insert_sql response_json merchant_code user_code = Inr history \<and>
            effects (snd (lambda_handler run post \<lparr>Records = Some [record]\<rparr> w)) =
              effects w @ [HttpPost request_body, SqlQuery history,
                           SqlQuery (settled_query merchant_code user_code)] \<and>
            db (snd (lambda_handler run post \<lparr>Records = Some [record]\<rparr> w)) =
              (let d1 = (case run history (db w) of None \<Rightarrow> db w | Some d \<Rightarrow> d)
               in case run (settled_query merchant_code user_code) d1 of
                    None \<Rightarrow> d1 | Some d \<Rightarrow> d)) \<and>
         fst (lambda_handler run post \<lparr>Records = Some [record]\<rparr> w) =
           Inr (success_response 1 1) \<and>
         statusCode (success_response 1 1) = 200"
proof -
  let ?w1 = "w\<lparr>effects := effects w @ [HttpPost request_body]\<rparr>"
  have pr: "process_record run post record w =
              record_outcome run response_json merchant_code user_code ?w1"
    using assms(4)
    by (simp add: process_record_response
        [where post = post and request_body = request_body, OF assms(1,2,3,5)])
  obtain history where h: "insert_sql response_json merchant_code user_code = Inr history"
    and ro: "record_outcome run response_json merchant_code user_code ?w1 =
      (Inr (), update_billing_to_settled run merchant_code user_code
                 (snd (execution_query run history ?w1)))"
    using record_outcome_status [OF assms(6), of merchant_code user_code run ?w1] assms(7)
    by auto
  have "effects (snd (lambda_handler run post \<lparr>Records = Some [record]\<rparr> w)) =
          effects w @ [HttpPost request_body, SqlQuery history,
                       SqlQuery (settled_query merchant_code user_code)]"
    by (simp add: handler_single pr ro settled_effects execution_query_effects)
  moreover have "db (snd (lambda_handler run post \<lparr>Records = Some [record]\<rparr> w)) =
          (let d1 = (case run history (db w) of None \<Rightarrow> db w | Some d \<Rightarrow> d)
           in case run (settled_query merchant_code user_code) d1 of
                None \<Rightarrow> d1 | Some d \<Rightarrow> d)"
    by (simp add: handler_single pr ro settled_db execution_query_db Let_def split: option.split)
  moreover have "fst (lambda_handler run post \<lparr>Records = Some [record]\<rparr> w) =
           Inr (success_response 1 1)"
    by (simp add: handler_single pr ro)
  moreover have "statusCode (success_response 1 1) = 200"
    by (simp add: success_response_def)
  ultimately show ?thesis
    using request_body_fields [OF assms(2)] h by blast
qed

text \<open>
  C4. The message parses, the request is built, and the provider answers ok with a body
  whose \<^verbatim>\<open>status\<close> does not equal 1. The handler inserts the history row, then runs the failure
  update once with the comment \<^verbatim>\<open>"error"\<close>, and returns the failure response. The database is
  what the connection makes of the insert and then of the failure update.
\<close>

theorem failed_on_other_status:
  assumes "parse_message record =
             Inr (message_data, billing_id, merchant_code, user_code, direct_debit_id, amount')"
    and "get_request_body direct_debit_id amount' = Inr request_body"
    and "post request_body = Inr response"
    and "ok response"
    and "json_body response = Inr response_json"
    and "py_getitem response_json ''status'' = Inr st"
    and "\<not> py_eq_int st SUCCESS_FLAG"
  shows "(\<exists>history. insert_sql response_json merchant_code user_code = Inr history \<and>
            effects (snd (lambda_handler run post \<lparr>Records = Some [record]\<rparr> w)) =
              effects w @ [HttpPost request_body, SqlQuery history,
                           SqlQuery (error_query merchant_code user_code (JStr ''error''))] \<and>
            db (snd (lambda_handler run post \<lparr>Records = Some [record]\<rparr> w)) =
              (let d1 = (case run history (db w) of None \<Rightarrow> db w | Some d \<Rightarrow> d)
               in case run (error_query merchant_code user_code (JStr ''error'')) d1 of
                    None \<Rightarrow> d1 | Some d \<Rightarrow> d)) \<and>
         fst (lambda_handler run post \<lparr>Records = Some [record]\<rparr> w) = Inr ERROR_CODE_REQUEST \<and>
         statusCode ERROR_CODE_REQUEST = 500"
proof -
  let ?w1 = "w\<lparr>effects := effects w @ [HttpPost request_body]\<rparr>"
  have pr: "process_record run post record w =
              record_outcome run response_json merchant_code user_code ?w1"
    using assms(4)
    by (simp add: process_record_response
        [where post = post and request_body = request_body, OF assms(1,2,3,5)])
  obtain history where h: "insert_sql response_json merchant_code user_code = Inr history"
    and ro: "record_outcome run response_json merchant_code user_code ?w1 =
      (Inl (ValueError status_is_disabled),
       update_billing_error run merchant_code user_code (JStr ''error'')
         (snd (execution_query run history ?w1)))"
    using record_outcome_status [OF assms(6), of merchant_code user_code run ?w1] assms(7)
    by auto
  have "effects (snd (lambda_handler run post \<lparr>Records = Some [record]\<rparr> w)) =
          effects w @ [HttpPost request_body, SqlQuery history,
                       SqlQuery (error_query merchant_code user_code (JStr ''error''))]"
    by (simp add: handler_single pr ro error_effects execution_query_effects)
  moreover have "db (snd (lambda_handler run post \<lparr>Records = Some [record]\<rparr> w)) =
          (let d1 = (case run history (db w) of None \<Rightarrow> db w | Some d \<Rightarrow> d)
           in case run (error_query merchant_code user_code (JStr ''error'')) d1 of
                None \<Rightarrow> d1 | Some d \<Rightarrow> d)"
    by (simp add: handler_single pr ro error_db execution_query_db Let_def split: option.split)
  moreover have "fst (lambda_handler run post \<lparr>Records = Some [record]\<rparr> w) =
           Inr ERROR_CODE_REQUEST"
    by (simp add: handler_single pr ro)
  moreover have "statusCode ERROR_CODE_REQUEST = 500"
    by (simp add: ERROR_CODE_REQUEST_def)
  ultimately show ?thesis using h by blast
qed

text \<open>
  C8. For every event: when \<^verbatim>\<open>Records\<close> has exactly one record the handler returns a
  response, the failure response with status code 500 or the success response with status
  code 200, and no exception escapes; when \<^verbatim>\<open>Records\<close> has any other length (or is absent) the
  assertion fails, \<^verbatim>\<open>AssertionError\<close> escapes and nothing has been done.
\<close>

theorem handler_returns_or_asserts:
  "(if length (case Records event of None \<Rightarrow> [] | Some rs \<Rightarrow> rs) = 1
    then fst (lambda_handler run post event w) = Inr ERROR_CODE_REQUEST \<or>
         fst (lambda_handler run post event w) = Inr (success_response 1 1)
    else lambda_handler run post event w = (Inl AssertionError, w)) \<and>
   statusCode ERROR_CODE_REQUEST = 500 \<and> statusCode (success_response 1 1) = 200"
proof -
  let ?rs = "case Records event of None \<Rightarrow> [] | Some rs \<Rightarrow> rs"
  have one: "fst (lambda_handler run post event w) = Inr ERROR_CODE_REQUEST \<or>
             fst (lambda_handler run post event w) = Inr (success_response 1 1)"
    if "length ?rs = 1"
  proof -
    obtain x v where p: "process_record run post (?rs ! 0) w = (x, v)" by fastforce
    show ?thesis using that p by (cases x) (simp_all add: lambda_handler_def)
  qed
  have other: "lambda_handler run post event w = (Inl AssertionError, w)"
    if "length ?rs \<noteq> 1"
    using that by (simp add: lambda_handler_def)
  have "statusCode ERROR_CODE_REQUEST = 500"
    by (simp add: ERROR_CODE_REQUEST_def)
  moreover have "statusCode (success_response 1 1) = 200"
    by (simp add: success_response_def)
  ultimately show ?thesis using one other by simp
qed

text \<open>
  C1. \<^verbatim>\<open>execution_query\<close> returns a flag and never raises: the flag is \<^verbatim>\<open>False\<close> exactly when the
  connection fails, and the database is then as it was. What the handler returns, and what
  it posts and hands to the store, in order, do not depend on what the connection does: two
  runs on the same event and the same provider, one with a connection that fails and one
  with a connection that succeeds, return the same response and make the same calls.
\<close>

theorem storage_failure_swallowed:
  assumes "effects w' = effects w"
  shows "fst (execution_query run query w) = (run query (db w) \<noteq> None) \<and>
         effects (snd (execution_query run query w)) = effects w @ [SqlQuery query] \<and>
         db (snd (execution_query run query w)) =
           (case run query (db w) of None \<Rightarrow> db w | Some d \<Rightarrow> d) \<and>
         fst (lambda_handler run' post event w') = fst (lambda_handler run post event w) \<and>
         effects (snd (lambda_handler run' post event w')) =
           effects (snd (lambda_handler run post event w))"
  using handler_rel [OF assms, of run' post event run]
  by (simp add: execution_query_flag execution_query_effects execution_query_db)

section \<open>The properties on the example inputs\<close>

lemma parse_b1:
  "parse_message record_b1 =
     Inr (message_b1, JStr ''b1'', JStr ''m1'', JStr ''u1'', JStr ''42'', ''500'')"
  by code_simp

lemma request_body_b1: "get_request_body (JStr ''42'') ''500'' = Inr request_b1"
  by code_simp

theorem provider_rejection_marks_failed_witness:
  "fst (lambda_handler run_log (\<lambda>b. Inr response_rejected) \<lparr>Records = Some [record_b1]\<rparr> world0) =
     Inr ERROR_CODE_REQUEST \<and>
   effects (snd (lambda_handler run_log (\<lambda>b. Inr response_rejected)
                   \<lparr>Records = Some [record_b1]\<rparr> world0)) =
     [HttpPost request_b1, SqlQuery (error_query (JStr ''m1'') (JStr ''u1'') (JStr ''E001''))] \<and>
   db (snd (lambda_handler run_log (\<lambda>b. Inr response_rejected)
              \<lparr>Records = Some [record_b1]\<rparr> world0)) =
     [error_query (JStr ''m1'') (JStr ''u1'') (JStr ''E001'')]"
proof -
  have "\<not> ok response_rejected"
    and "json_body response_rejected = Inr (JObj [(''err'', JObj [(''ec'', JStr ''E001'')])])"
    and "py_getitem (JObj [(''err'', JObj [(''ec'', JStr ''E001'')])]) ''err'' =
           Inr (JObj [(''ec'', JStr ''E001'')])"
    and "py_getitem (JObj [(''ec'', JStr ''E001'')]) ''ec'' = Inr (JStr ''E001'')"
    by (simp_all add: response_rejected_def)
  from provider_rejection_marks_failed
    [where post = "\<lambda>b. Inr response_rejected" and run = run_log and w = world0,
     OF parse_b1 request_body_b1 refl this]
  show ?thesis by (simp add: world0_def run_log_def)
qed

theorem missing_error_code_leaves_pending_witness:
  "lambda_handler run_log (\<lambda>b. Inr response_no_code) \<lparr>Records = Some [record_b1]\<rparr> world0 =
     (Inr ERROR_CODE_REQUEST, \<lparr>db = [], effects = [HttpPost request_b1]\<rparr>)"
proof -
  have "\<not> ok response_no_code"
    and "json_body response_no_code = Inr (JObj [(''message'', JStr ''Internal Server Error'')])"
    and "map_of [(''message'', JStr ''Internal Server Error'')] ''err'' = None \<or>
         (\<exists>kvs'. map_of [(''message'', JStr ''Internal Server Error'')] ''err'' = Some (JObj kvs') \<and>
                 map_of kvs' ''ec'' = None)"
    by (simp_all add: response_no_code_def)
  from missing_error_code_leaves_pending
    [where post = "\<lambda>b. Inr response_no_code" and run = run_log and w = world0,
     OF parse_b1 request_body_b1 refl this]
  show ?thesis by (simp add: world0_def)
qed

theorem parser_failure_no_effects_witness:
  "lambda_handler run_log (\<lambda>b. Inr response_settled)
     \<lparr>Records = Some [\<lparr>record_body = Some Undecodable\<rparr>]\<rparr> world0 =
     (Inr ERROR_CODE_REQUEST, world0) \<and>
   parse_message record_unit_separator =
     Inl (ValueError (Invalid_amount (JStr (CHR 0x1F # ''12'')))) \<and>
   lambda_handler run_log (\<lambda>b. Inr response_settled)
     \<lparr>Records = Some [record_unit_separator]\<rparr> world0 =
     (Inr ERROR_CODE_REQUEST, world0)"
proof -
  have a: "parse_message \<lparr>record_body = Some Undecodable\<rparr> = Inl (ValueError Invalid_JSON_format)"
    by (simp add: parse_message_def)
  have b: "parse_message record_unit_separator =
             Inl (ValueError (Invalid_amount (JStr (CHR 0x1F # ''12''))))"
    by code_simp
  from parser_failure_no_effects [OF a, of run_log "\<lambda>b. Inr response_settled" world0]
    parser_failure_no_effects [OF b, of run_log "\<lambda>b. Inr response_settled" world0] b
  show ?thesis by simp
qed

theorem settled_on_status_one_witness:
  "customer_id request_b1 = 42 \<and> amount request_b1 = 500 \<and>
   effects (snd (lambda_handler run_log (\<lambda>b. Inr response_settled)
                   \<lparr>Records = Some [record_b1]\<rparr> world0)) =
     [HttpPost request_b1, SqlQuery history_settled,
      SqlQuery (settled_query (JStr ''m1'') (JStr ''u1''))] \<and>
   db (snd (lambda_handler run_log (\<lambda>b. Inr response_settled)
              \<lparr>Records = Some [record_b1]\<rparr> world0)) =
     [history_settled, settled_query (JStr ''m1'') (JStr ''u1'')] \<and>
   fst (lambda_handler run_log (\<lambda>b. Inr response_settled) \<lparr>Records = Some [record_b1]\<rparr> world0) =
     Inr (success_response 1 1) \<and>
   statusCode (success_response 1 1) = 200"
proof -
  have "ok response_settled"
    and "json_body response_settled =
           Inr (JObj [(''status'', JInt 1), (''request_id'', JStr ''r1'')])"
    and "py_getitem (JObj [(''status'', JInt 1), (''request_id'', JStr ''r1'')]) ''status'' =
           Inr (JInt 1)"
    and "py_eq_int (JInt 1) SUCCESS_FLAG"
    by (simp_all add: response_settled_def SUCCESS_FLAG_def)
  from settled_on_status_one
    [where post = "\<lambda>b. Inr response_settled" and run = run_log and w = world0,
     OF parse_b1 request_body_b1 refl this]
  show ?thesis
    by (simp add: world0_def insert_sql_def request_b1_def history_settled_def run_log_def)
qed

theorem failed_on_other_status_witness:
  "effects (snd (lambda_handler run_log (\<lambda>b. Inr response_disabled)
                   \<lparr>Records = Some [record_b1]\<rparr> world0)) =
     [HttpPost request_b1, SqlQuery history_disabled,
      SqlQuery (error_query (JStr ''m1'') (JStr ''u1'') (JStr ''error''))] \<and>
   db (snd (lambda_handler run_log (\<lambda>b. Inr response_disabled)
              \<lparr>Records = Some [record_b1]\<rparr> world0)) =
     [history_disabled, error_query (JStr ''m1'') (JStr ''u1'') (JStr ''error'')] \<and>
   fst (lambda_handler run_log (\<lambda>b. Inr response_disabled) \<lparr>Records = Some [record_b1]\<rparr> world0) =
     Inr ERROR_CODE_REQUEST \<and>
   statusCode ERROR_CODE_REQUEST = 500"
proof -
  have "ok response_disabled"
    and "json_body response_disabled = Inr (JObj [(''status'', JInt 2)])"
    and "py_getitem (JObj [(''status'', JInt 2)]) ''status'' = Inr (JInt 2)"
    and "\<not> py_eq_int (JInt 2) SUCCESS_FLAG"
    by (simp_all add: response_disabled_def SUCCESS_FLAG_def)
  from failed_on_other_status
    [where post = "\<lambda>b. Inr response_disabled" and run = run_log and w = world0,
     OF parse_b1 request_body_b1 refl this]
  show ?thesis
    by (simp add: world0_def insert_sql_def history_disabled_def run_log_def)
qed

theorem handler_returns_or_asserts_witness:
  "(fst (lambda_handler run_log (\<lambda>b. Inr response_settled) \<lparr>Records = Some [record_b1]\<rparr> world0) =
      Inr ERROR_CODE_REQUEST \<or>
    fst (lambda_handler run_log (\<lambda>b. Inr response_settled) \<lparr>Records = Some [record_b1]\<rparr> world0) =
      Inr (success_response 1 1)) \<and>
   lambda_handler run_log (\<lambda>b. Inr response_settled) \<lparr>Records = Some []\<rparr> world0 =
     (Inl AssertionError, world0) \<and>
   lambda_handler run_log (\<lambda>b. Inr response_settled) \<lparr>Records = Some [record_b1, record_b1]\<rparr>
     world0 = (Inl AssertionError, world0) \<and>
   lambda_handler run_log (\<lambda>b. Inr response_settled) \<lparr>Records = None\<rparr> world0 =
     (Inl AssertionError, world0)"
  using handler_returns_or_asserts
      [of "\<lparr>Records = Some [record_b1]\<rparr>" run_log "\<lambda>b. Inr response_settled" world0]
    handler_returns_or_asserts
      [of "\<lparr>Records = Some []\<rparr>" run_log "\<lambda>b. Inr response_settled" world0]
    handler_returns_or_asserts
      [of "\<lparr>Records = Some [record_b1, record_b1]\<rparr>" run_log "\<lambda>b. Inr response_settled" world0]
    handler_returns_or_asserts
      [of "\<lparr>Records = None\<rparr>" run_log "\<lambda>b. Inr response_settled" world0]
  by simp

theorem storage_failure_swallowed_witness:
  "fst (execution_query run_down (settled_query (JStr ''m1'') (JStr ''u1'')) world0) = False \<and>
   db (snd (execution_query run_down (settled_query (JStr ''m1'') (JStr ''u1'')) world0)) = [] \<and>
   fst (lambda_handler run_log (\<lambda>b. Inr response_settled) \<lparr>Records = Some [record_b1]\<rparr> world0) =
     fst (lambda_handler run_down (\<lambda>b. Inr response_settled) \<lparr>Records = Some [record_b1]\<rparr> world0) \<and>
   effects (snd (lambda_handler run_log (\<lambda>b. Inr response_settled)
                   \<lparr>Records = Some [record_b1]\<rparr> world0)) =
     effects (snd (lambda_handler run_down (\<lambda>b. Inr response_settled)
                     \<lparr>Records = Some [record_b1]\<rparr> world0)) \<and>
   db (snd (lambda_handler run_down (\<lambda>b. Inr response_settled)
              \<lparr>Records = Some [record_b1]\<rparr> world0)) = []"
proof -
  have e: "effects world0 = effects world0" by simp
  have d: "db (snd (lambda_handler run_down (\<lambda>b. Inr response_settled)
              \<lparr>Records = Some [record_b1]\<rparr> world0)) = []"
    by code_simp
  from storage_failure_swallowed
    [OF e, of run_down "settled_query (JStr ''m1'') (JStr ''u1'')" run_log
       "\<lambda>b. Inr response_settled" "\<lparr>Records = Some [record_b1]\<rparr>"] d
  show ?thesis by (simp add: run_down_def world0_def)
qed

end
